theory Spec2Isabelle
  imports Complex_Main
begin

section \<open>Python values, message schema and exceptions\<close>

text \<open>
  The two modules verified here are \<^verbatim>\<open>protorpc/protojson.py\<close> (the JSON codec) and
  \<^verbatim>\<open>protorpc/wsgi/service.py\<close> (the WSGI dispatcher). Both are Python 2 code.
  A \<^verbatim>\<open>str\<close> is a sequence of bytes and is modelled by \<^typ>\<open>string\<close> (an Isabelle
  character is one byte); a \<^verbatim>\<open>unicode\<close> is modelled by \<^typ>\<open>string\<close> as well, which
  restricts text to the code points 0 to 255.
\<close>

datatype exc_class =
    ValidationError | DecodeError | ValueError | TypeError | KeyError | AttributeError
  | IndexError | UnicodeDecodeError
  | ApplicationError "string option"
  | OtherException string

datatype exn = Exn (exn_class: exc_class) (exn_text: string)

type_synonym 'a result = "exn + 'a"

definition raise :: "exc_class \<Rightarrow> string \<Rightarrow> 'a result" where
  "raise c text = Inl (Exn c text)"

text \<open>Running a list of fallible steps in order; the first exception ends the run.\<close>

fun mapM :: "('a \<Rightarrow> 'b result) \<Rightarrow> 'a list \<Rightarrow> 'b list result" where
  "mapM f [] = Inr []"
| "mapM f (x # xs) =
     (case f x of
        Inl e \<Rightarrow> Inl e
      | Inr y \<Rightarrow> (case mapM f xs of Inl e \<Rightarrow> Inl e | Inr ys \<Rightarrow> Inr (y # ys)))"

fun foldM :: "('a \<Rightarrow> 's \<Rightarrow> 's result) \<Rightarrow> 'a list \<Rightarrow> 's \<Rightarrow> 's result" where
  "foldM f [] s = Inr s"
| "foldM f (x # xs) s = (case f x s of Inl e \<Rightarrow> Inl e | Inr s' \<Rightarrow> foldM f xs s')"

text \<open>
  Modelled from the spec: the message schema of \<^verbatim>\<open>protorpc/messages.py\<close>. A field
  descriptor has a name, a value kind, a repeated flag and a required flag; an enum type
  lists its symbolic names with their numbers; a message type lists its fields in schema
  order.
\<close>

datatype field_desc = FieldDescriptor (name: string) (kind: kind) (repeated: bool) (required: bool)
and kind =
    IntegerField | FloatField | StringField | BooleanField | BytesField
  | EnumField "(string \<times> int) list"
  | MessageField message_type
and message_type = MessageType (type_name: string) (all_fields: "field_desc list")

text \<open>
  Python objects as the codec sees them: what \<^verbatim>\<open>simplejson.loads\<close> returns (None,
  bool, int, float, unicode, list, dict) and what a message holds (in addition str for
  bytes, enum values and nested messages). A message instance has one slot per field of
  its type, in schema order; the slot is \<open>NoneValue\<close> while the field has no assigned
  value, which is what \<^verbatim>\<open>get_assigned_value\<close> returns for it. Floats are modelled by
  rationals: rounding, infinities and NaN are outside the model.
\<close>

datatype "pyobject" =
    NoneValue
  | Bool bool
  | Integer int
  | Float rat
  | Unicode string
  | Str string
  | List "pyobject list"
  | Dict "(string \<times> pyobject) list"
  | Enum string int
  | Message message_type "pyobject list"


section \<open>Library functions the codec calls\<close>

text \<open>
  \<^verbatim>\<open>base64.b64encode\<close> and \<^verbatim>\<open>base64.b64decode\<close> of the Python standard library, on the
  standard alphabet with \<^verbatim>\<open>=\<close> padding. Three bytes make four sextets; the decoder
  takes four characters at a time and rejects anything that is not canonical base64.
\<close>

definition b64char :: "nat \<Rightarrow> char" where
  "b64char n =
     (if n < 26 then char_of (65 + n)
      else if n < 52 then char_of (71 + n)
      else if n < 62 then char_of (n - 4)
      else if n = 62 then CHR ''+'' else CHR ''/'')"

definition b64index :: "char \<Rightarrow> nat option" where
  "b64index c =
     (let k = (of_char c :: nat) in
      if 65 \<le> k \<and> k \<le> 90 then Some (k - 65)
      else if 97 \<le> k \<and> k \<le> 122 then Some (k - 71)
      else if 48 \<le> k \<and> k \<le> 57 then Some (k + 4)
      else if k = 43 then Some 62
      else if k = 47 then Some 63
      else None)"

definition sextet1 :: "char \<Rightarrow> nat" where
  "sextet1 a = of_char a div 4"

definition sextet2 :: "char \<Rightarrow> nat \<Rightarrow> nat" where
  "sextet2 a y = (of_char a mod 4) * 16 + y div 16"

definition sextet3 :: "char \<Rightarrow> nat \<Rightarrow> nat" where
  "sextet3 b z = (of_char b mod 16) * 4 + z div 64"

definition sextet4 :: "char \<Rightarrow> nat" where
  "sextet4 c = of_char c mod 64"

definition octet1 :: "nat \<Rightarrow> nat \<Rightarrow> char" where
  "octet1 i j = char_of (i * 4 + j div 16)"

definition octet2 :: "nat \<Rightarrow> nat \<Rightarrow> char" where
  "octet2 j k = char_of ((j mod 16) * 16 + k div 4)"

definition octet3 :: "nat \<Rightarrow> nat \<Rightarrow> char" where
  "octet3 k l = char_of ((k mod 4) * 64 + l)"

fun b64encode :: "string \<Rightarrow> string" where
  "b64encode [] = []"
| "b64encode [a] =
     [b64char (sextet1 a), b64char (sextet2 a 0), CHR ''='', CHR ''='']"
| "b64encode [a, b] =
     [b64char (sextet1 a), b64char (sextet2 a (of_char b)), b64char (sextet3 b 0), CHR ''='']"
| "b64encode (a # b # c # rest) =
     [b64char (sextet1 a), b64char (sextet2 a (of_char b)), b64char (sextet3 b (of_char c)),
      b64char (sextet4 c)] @ b64encode rest"

fun b64decode :: "string \<Rightarrow> string option" where
  "b64decode [] = Some []"
| "b64decode (p # q # r # s # rest) =
     (case (b64index p, b64index q) of
        (Some i, Some j) \<Rightarrow>
          (if rest = [] \<and> r = CHR ''='' \<and> s = CHR ''='' then Some [octet1 i j]
           else case b64index r of
             None \<Rightarrow> None
           | Some k \<Rightarrow>
               (if rest = [] \<and> s = CHR ''='' then Some [octet1 i j, octet2 j k]
                else case b64index s of
                  None \<Rightarrow> None
                | Some l \<Rightarrow>
                    map_option (\<lambda>t. [octet1 i j, octet2 j k, octet3 k l] @ t) (b64decode rest)))
      | _ \<Rightarrow> None)"
| "b64decode _ = None"


text \<open>
  \<^verbatim>\<open>unicode.encode('utf-8')\<close> and \<^verbatim>\<open>str.decode('utf-8')\<close>, for the code points 0 to 255
  that the model has.
\<close>

definition utf8_encode :: "string \<Rightarrow> string" where
  "utf8_encode s =
     concat (map (\<lambda>c. if (of_char c :: nat) < 128 then [c]
                        else [char_of (192 + (of_char c :: nat) div 64),
                              char_of (128 + (of_char c :: nat) mod 64)]) s)"

fun utf8_decode :: "string \<Rightarrow> string option" where
  "utf8_decode [] = Some []"
| "utf8_decode [c] = (if (of_char c :: nat) < 128 then Some [c] else None)"
| "utf8_decode (c # d # cs) =
     (if (of_char c :: nat) < 128 then map_option ((#) c) (utf8_decode (d # cs))
      else if (of_char c :: nat) \<in> {194, 195}
              \<and> 128 \<le> (of_char d :: nat) \<and> (of_char d :: nat) < 192
      then map_option
             ((#) (char_of (((of_char c :: nat) - 192) * 64 + ((of_char d :: nat) - 128))))
             (utf8_decode cs)
      else None)"

text \<open>
  \<^verbatim>\<open>str.strip()\<close> removes leading and trailing whitespace.
\<close>

definition is_space :: "char \<Rightarrow> bool" where
  "is_space c = (c \<in> set [CHR '' '', CHR 0x09, CHR 0x0A, CHR 0x0B, CHR 0x0C, CHR 0x0D])"

definition strip :: "string \<Rightarrow> string" where
  "strip s = rev (dropWhile is_space (rev (dropWhile is_space s)))"

text \<open>
  \<^verbatim>\<open>simplejson\<close> is a library outside the repository. Its text layer is a parameter:
  \<open>dumps\<close> writes a tree of None, bool, int, float, unicode, list and dict as JSON text,
  \<open>loads\<close> parses JSON text into such a tree or raises ValueError.
\<close>

record simplejson =
  dumps :: "pyobject \<Rightarrow> string"
  loads :: "string \<Rightarrow> pyobject result"

section \<open>The message interface the codec calls\<close>

text \<open>
  Modelled from the spec: the operations of \<^verbatim>\<open>messages.Message\<close> that
  \<^verbatim>\<open>protojson.py\<close> calls. \<open>message_type()\<close> builds an instance with no assigned
  value.
\<close>

definition new_message :: "message_type \<Rightarrow> pyobject" where
  "new_message t = Message t (replicate (length (all_fields t)) NoneValue)"

fun field_index :: "field_desc list \<Rightarrow> string \<Rightarrow> nat option" where
  "field_index [] key = None"
| "field_index (f # fs) key =
     (if name f = key then Some 0 else map_option Suc (field_index fs key))"

text \<open>
  Modelled from the spec: \<^verbatim>\<open>field_by_name\<close> answers with the field descriptor or raises
  KeyError, the exception \<^verbatim>\<open>decode_dictionary\<close> catches for an unknown key.
\<close>

fun field_by_name :: "pyobject \<Rightarrow> string \<Rightarrow> field_desc result" where
  "field_by_name (Message t slots) key =
     (case field_index (all_fields t) key of
        None \<Rightarrow> raise KeyError key
      | Some i \<Rightarrow> Inr (all_fields t ! i))"
| "field_by_name _ key = raise AttributeError ''field_by_name''"

text \<open>
  Modelled from the spec: \<^verbatim>\<open>reset\<close> clears the assigned value of a field. It finds the
  field by its name, and a name that is no field of the message type is an
  AttributeError.
\<close>

fun reset :: "pyobject \<Rightarrow> string \<Rightarrow> pyobject result" where
  "reset (Message t slots) key =
     (case field_index (all_fields t) key of
        None \<Rightarrow> raise AttributeError key
      | Some i \<Rightarrow> Inr (Message t (slots[i := NoneValue])))"
| "reset _ key = raise AttributeError ''reset''"

text \<open>
  Modelled from the spec: the type check of an assignment. A value fits a field when it
  is of the field's kind: an enum value is one of the enum type's (name, number) pairs, a
  nested message is an instance of the field's message type, and a repeated field takes
  a list whose elements fit.
\<close>

fun validate_element :: "kind \<Rightarrow> pyobject \<Rightarrow> bool" where
  "validate_element IntegerField (Integer i) = True"
| "validate_element FloatField (Float x) = True"
| "validate_element StringField (Unicode s) = True"
| "validate_element BooleanField (Bool b) = True"
| "validate_element BytesField (Str s) = True"
| "validate_element (EnumField values) (Enum n k) = ((n, k) \<in> set values)"
| "validate_element (MessageField t) (Message t' slots) = (t' = t)"
| "validate_element _ _ = False"

definition validate :: "field_desc \<Rightarrow> pyobject \<Rightarrow> bool" where
  "validate f v =
     (if repeated f
      then (case v of List vs \<Rightarrow> list_all (validate_element (kind f)) vs | _ \<Rightarrow> False)
      else validate_element (kind f) v)"

text \<open>
  Modelled from the spec: \<^verbatim>\<open>setattr(message, name, value)\<close> assigns a value that passes
  the type check and raises ValidationError otherwise; assigning None clears the field.
\<close>

fun setattr :: "pyobject \<Rightarrow> string \<Rightarrow> pyobject \<Rightarrow> pyobject result" where
  "setattr (Message t slots) key v =
     (case field_index (all_fields t) key of
        None \<Rightarrow> raise AttributeError key
      | Some i \<Rightarrow>
          if v = NoneValue then Inr (Message t (slots[i := NoneValue]))
          else if validate (all_fields t ! i) v then Inr (Message t (slots[i := v]))
          else raise ValidationError key)"
| "setattr _ key v = raise AttributeError ''setattr''"

fun get_assigned_value :: "pyobject \<Rightarrow> string \<Rightarrow> pyobject result" where
  "get_assigned_value (Message t slots) key =
     (case field_index (all_fields t) key of
        None \<Rightarrow> raise AttributeError key
      | Some i \<Rightarrow> Inr (if i < length slots then slots ! i else NoneValue))"
| "get_assigned_value _ key = raise AttributeError ''get_assigned_value''"

text \<open>
  Modelled from the spec: a message is initialized when every required field has an
  assigned value, transitively through nested messages (also those inside repeated
  fields).
\<close>

fun is_initialized :: "pyobject \<Rightarrow> bool" where
  "is_initialized (Message t slots) =
     (list_all (\<lambda>(f, item). required f \<longrightarrow> item \<noteq> NoneValue) (zip (all_fields t) slots)
      \<and> list_all is_initialized slots)"
| "is_initialized (List vs) = list_all is_initialized vs"
| "is_initialized _ = True"

fun check_initialized :: "pyobject \<Rightarrow> unit result" where
  "check_initialized (Message t slots) =
     (if is_initialized (Message t slots) then Inr () else raise ValidationError (type_name t))"
| "check_initialized _ = raise AttributeError ''check_initialized''"


section \<open>protojson.py: the encoder\<close>

fun b64encode_value :: "pyobject \<Rightarrow> pyobject result" where
  "b64encode_value (Str s) = Inr (Str (b64encode s))"
| "b64encode_value _ = raise TypeError ''b64encode''"

text \<open>
  The loop of \<^verbatim>\<open>_MessageJSONEncoder.default\<close> over \<^verbatim>\<open>value.all_fields()\<close>. The result
  dictionary is an association list in the order of the loop. \<^verbatim>\<open>item not in (None, [], ())\<close>
  compares with \<^verbatim>\<open>==\<close>, which only None and an empty sequence satisfy. The block under
  \<^verbatim>\<open>isinstance(field, messages.BytesField)\<close> is \<open>encode_bytes\<close>. A repeated field holds a
  list (the schema checks every assignment); the comprehension over anything else is
  written as a TypeError.
\<close>

definition encode_bytes :: "field_desc \<Rightarrow> pyobject \<Rightarrow> pyobject result" where
  "encode_bytes field item =
     (if kind field = BytesField
      then (if repeated field
            then (case item of
                    List items \<Rightarrow>
                      (case mapM b64encode_value items of
                         Inl e \<Rightarrow> Inl e
                       | Inr encoded \<Rightarrow> Inr (List encoded))
                  | _ \<Rightarrow> raise TypeError ''not iterable'')
            else b64encode_value item)
      else Inr item)"

fun default_loop :: "pyobject \<Rightarrow> field_desc list \<Rightarrow> (string \<times> pyobject) list result" where
  "default_loop message [] = Inr []"
| "default_loop message (field # others) =
     (case get_assigned_value message (name field) of
        Inl e \<Rightarrow> Inl e
      | Inr item \<Rightarrow>
          if item = NoneValue \<or> item = List [] then default_loop message others
          else
            (case encode_bytes field item of
               Inl e \<Rightarrow> Inl e
             | Inr item' \<Rightarrow>
                 (case default_loop message others of
                    Inl e \<Rightarrow> Inl e
                  | Inr result \<Rightarrow> Inr ((name field, item') # result))))"

text \<open>
  \<^verbatim>\<open>_MessageJSONEncoder.default\<close>: \<^verbatim>\<open>str(value)\<close> of an enum value is its name; the base
  class raises TypeError for anything else.
\<close>

fun encoder_default :: "pyobject \<Rightarrow> pyobject result" where
  "encoder_default (Enum n k) = Inr (Str n)"
| "encoder_default (Message t slots) =
     (case default_loop (Message t slots) (all_fields t) of
        Inl e \<Rightarrow> Inl e
      | Inr result \<Rightarrow> Inr (Dict result))"
| "encoder_default _ = raise TypeError ''is not JSON serializable''"

text \<open>
  The walk of \<^verbatim>\<open>simplejson.dumps(message, cls=_MessageJSONEncoder)\<close> before any text is
  written: JSON-native objects are kept, a str is read as UTF-8 text, and
  \<^verbatim>\<open>default\<close> is called on every other object and its answer walked in turn. The
  nesting depth of a value decreases along these calls.
\<close>

fun max_list :: "nat list \<Rightarrow> nat" where
  "max_list [] = 0"
| "max_list (n # ns) = max n (max_list ns)"

fun height :: "pyobject \<Rightarrow> nat" where
  "height (List vs) = Suc (max_list (map height vs))"
| "height (Dict kvs) = Suc (max_list (map (\<lambda>(k, v). height v) kvs))"
| "height (Message t slots) = Suc (Suc (max_list (map height slots)))"
| "height (Enum n k) = 1"
| "height _ = 0"

lemma mapM_cong [fundef_cong]:
  "xs = ys \<Longrightarrow> (\<And>x. x \<in> set ys \<Longrightarrow> f x = g x) \<Longrightarrow> mapM f xs = mapM g ys"
  by (induction ys arbitrary: xs) (auto cong: sum.case_cong)

lemma foldM_cong [fundef_cong]:
  "xs = ys \<Longrightarrow> s = s' \<Longrightarrow> (\<And>x a. x \<in> set ys \<Longrightarrow> f x a = g x a) \<Longrightarrow> foldM f xs s = foldM g ys s'"
  by (induction ys arbitrary: xs s s') (auto split: sum.splits)

lemma max_list_ge: "n \<in> set ns \<Longrightarrow> n \<le> max_list ns"
  by (induction ns) auto

lemma max_list_le: "(\<And>n. n \<in> set ns \<Longrightarrow> n \<le> b) \<Longrightarrow> max_list ns \<le> b"
  by (induction ns) auto

lemma b64encode_value_height: "b64encode_value v = Inr w \<Longrightarrow> height w = 0"
  by (cases v) (auto simp add: raise_def)

lemma mapM_b64encode_value_height:
  "mapM b64encode_value vs = Inr ws \<Longrightarrow> max_list (map height ws) = 0"
  by (induction vs arbitrary: ws) (auto split: sum.splits dest: b64encode_value_height)

lemma get_assigned_value_height:
  "get_assigned_value (Message t slots) key = Inr item
   \<Longrightarrow> height item \<le> max_list (map height slots)"
  by (auto simp add: raise_def max_list_ge split: option.splits if_splits)

lemma encode_bytes_height: "encode_bytes field item = Inr item' \<Longrightarrow> height item' \<le> height item"
  by (auto simp add: encode_bytes_def raise_def split: if_splits pyobject.splits sum.splits
      dest: b64encode_value_height mapM_b64encode_value_height)

lemma default_loop_height:
  "default_loop (Message t slots) others = Inr result \<Longrightarrow> (k, v) \<in> set result
   \<Longrightarrow> height v \<le> max_list (map height slots)"
proof (induction others arbitrary: result)
  case Nil
  then show ?case by simp
next
  case (Cons field others)
  from Cons.prems(1) obtain item where
    item: "get_assigned_value (Message t slots) (name field) = Inr item"
    by (auto split: sum.splits)
  note h = get_assigned_value_height [OF item]
  show ?case
  proof (cases "item = NoneValue \<or> item = List []")
    case True
    with Cons item show ?thesis by auto
  next
    case False
    with Cons.prems(1) item obtain item' rest where
      conv: "encode_bytes field item = Inr item'"
      and rest: "default_loop (Message t slots) others = Inr rest"
      and result: "result = (name field, item') # rest"
      by (auto split: sum.splits)
    from encode_bytes_height [OF conv] h Cons.IH [OF rest] Cons.prems(2) result
    show ?thesis by auto
  qed
qed

function jsonify :: "pyobject \<Rightarrow> pyobject result" where
  "jsonify NoneValue = Inr NoneValue"
| "jsonify (Bool b) = Inr (Bool b)"
| "jsonify (Integer i) = Inr (Integer i)"
| "jsonify (Float x) = Inr (Float x)"
| "jsonify (Unicode s) = Inr (Unicode s)"
| "jsonify (Str s) =
     (case utf8_decode s of None \<Rightarrow> raise UnicodeDecodeError s | Some u \<Rightarrow> Inr (Unicode u))"
| "jsonify (List vs) =
     (case mapM jsonify vs of Inl e \<Rightarrow> Inl e | Inr js \<Rightarrow> Inr (List js))"
| "jsonify (Dict kvs) =
     (case mapM (\<lambda>(k, v). case jsonify v of Inl e \<Rightarrow> Inl e | Inr j \<Rightarrow> Inr (k, j)) kvs of
        Inl e \<Rightarrow> Inl e
      | Inr js \<Rightarrow> Inr (Dict js))"
| "jsonify (Enum n k) =
     (case encoder_default (Enum n k) of Inl e \<Rightarrow> Inl e | Inr v \<Rightarrow> jsonify v)"
| "jsonify (Message t slots) =
     (case encoder_default (Message t slots) of Inl e \<Rightarrow> Inl e | Inr v \<Rightarrow> jsonify v)"
  by pat_completeness auto

termination
proof (relation "measure height")
  fix t slots b
  assume "encoder_default (Message t slots) = Inr b"
  then obtain result where r: "default_loop (Message t slots) (all_fields t) = Inr result"
    and b: "b = Dict result"
    by (auto split: sum.splits)
  have "max_list (map (\<lambda>(k, v). height v) result) \<le> max_list (map height slots)"
    by (rule max_list_le) (auto dest: default_loop_height [OF r])
  with b show "(b, Message t slots) \<in> measure height" by simp
qed (auto simp add: less_Suc_eq_le intro!: max_list_ge)


text \<open>\<^verbatim>\<open>encode_message\<close>.\<close>

definition encode_message :: "simplejson \<Rightarrow> pyobject \<Rightarrow> string result" where
  "encode_message sj message =
     (case check_initialized message of
        Inl e \<Rightarrow> Inl e
      | Inr _ \<Rightarrow> (case jsonify message of Inl e \<Rightarrow> Inl e | Inr tree \<Rightarrow> Inr (dumps sj tree)))"

section \<open>protojson.py: the decoder\<close>

text \<open>
  Modelled from the spec: calling an enum type with a JSON element looks the element up
  by name when it is text and by number when it is an integer, and fails when nothing
  matches.
\<close>

definition enum_call :: "(string \<times> int) list \<Rightarrow> pyobject \<Rightarrow> pyobject result" where
  "enum_call values item =
     (case item of
        Unicode s \<Rightarrow>
          (case map_of values s of None \<Rightarrow> raise TypeError s | Some k \<Rightarrow> Inr (Enum s k))
      | Str s \<Rightarrow>
          (case map_of values s of None \<Rightarrow> raise TypeError s | Some k \<Rightarrow> Inr (Enum s k))
      | Integer i \<Rightarrow>
          (case find (\<lambda>(n, k). k = i) values of
             None \<Rightarrow> raise TypeError ''No such pyobject''
           | Some (n, k) \<Rightarrow> Inr (Enum n k))
      | _ \<Rightarrow> raise TypeError ''No such pyobject'')"

text \<open>
  \<^verbatim>\<open>base64.b64decode\<close> takes a str and raises TypeError on anything that does not decode.
\<close>

fun b64decode_value :: "pyobject \<Rightarrow> pyobject result" where
  "b64decode_value (Str s) =
     (case b64decode s of None \<Rightarrow> raise TypeError ''Incorrect padding'' | Some b \<Rightarrow> Inr (Str b))"
| "b64decode_value _ = raise TypeError ''b64decode''"

text \<open>
  The body of the loop \<^verbatim>\<open>for item in value\<close> in \<^verbatim>\<open>decode_dictionary\<close>. The recursive call
  for a nested message is the parameter \<open>decode_nested\<close>. In Python a bool is an int, so
  \<^verbatim>\<open>isinstance(item, (int, long))\<close> holds for it too.
\<close>

definition convert_item ::
  "(message_type \<Rightarrow> pyobject \<Rightarrow> pyobject result) \<Rightarrow> field_desc \<Rightarrow> pyobject \<Rightarrow> pyobject result" where
  "convert_item decode_nested field item =
     (case kind field of
        EnumField values \<Rightarrow> enum_call values item
      | BytesField \<Rightarrow>
          b64decode_value (case item of Unicode s \<Rightarrow> Str (utf8_encode s) | _ \<Rightarrow> item)
      | MessageField t \<Rightarrow> decode_nested t item
      | FloatField \<Rightarrow>
          (case item of
             Integer i \<Rightarrow> Inr (Float (of_int i))
           | Bool b \<Rightarrow> Inr (Float (if b then 1 else 0))
           | _ \<Rightarrow> Inr item)
      | _ \<Rightarrow> Inr item)"

text \<open>The normalisation of a JSON value into a list (\<^verbatim>\<open>value = [value]\<close>).\<close>

definition as_list :: "pyobject \<Rightarrow> pyobject list" where
  "as_list val = (case val of List items \<Rightarrow> items | _ \<Rightarrow> [val])"

text \<open>
  The body of the loop \<^verbatim>\<open>for key, value in dictionary.iteritems()\<close>: it returns the message
  after this entry, or the exception that leaves the loop. The test for None comes first
  and calls \<^verbatim>\<open>reset\<close> with the key as it is; only then is the field looked up, and only
  that lookup is guarded by \<^verbatim>\<open>except KeyError\<close>.
\<close>

definition decode_entry ::
  "(message_type \<Rightarrow> pyobject \<Rightarrow> pyobject result) \<Rightarrow> pyobject \<Rightarrow> string \<Rightarrow> pyobject \<Rightarrow> pyobject result" where
  "decode_entry decode_nested message key val =
     (if val = NoneValue then reset message key
      else
        case field_by_name message key of
          Inl e \<Rightarrow> (if exn_class e = KeyError then Inr message else Inl e)
        | Inr field \<Rightarrow>
            if val = List [] then Inr message
            else
              (case mapM (convert_item decode_nested field) (as_list val) of
                 Inl e \<Rightarrow> Inl e
               | Inr valid_value \<Rightarrow>
                   if repeated field then setattr message (name field) (List valid_value)
                   else if valid_value = [] then raise IndexError ''list index out of range''
                   else setattr message (name field) (last valid_value)))"

lemma convert_item_cong:
  "decode_nested = decode_nested' \<or> (\<forall>t. decode_nested t item = decode_nested' t item)
   \<Longrightarrow> convert_item decode_nested field item = convert_item decode_nested' field item"
  by (auto simp add: convert_item_def split: kind.splits)

lemma decode_entry_cong [fundef_cong]:
  assumes "message = message'" "key = key'" "val = val'"
    and "\<And>t item. item \<in> set (as_list val') \<Longrightarrow> decode_nested t item = decode_nested' t item"
  shows "decode_entry decode_nested message key val = decode_entry decode_nested' message' key' val'"
proof -
  have "mapM (convert_item decode_nested field) (as_list val')
        = mapM (convert_item decode_nested' field) (as_list val')" for field
    by (rule mapM_cong [OF refl]) (simp add: assms(4) convert_item_cong)
  then show ?thesis
    unfolding decode_entry_def assms(1-3) by (simp cong: sum.case_cong if_cong)
qed

lemma as_list_height: "item \<in> set (as_list val) \<Longrightarrow> height item \<le> height val"
  by (cases val) (auto simp add: as_list_def le_Suc_eq intro!: max_list_ge)


text \<open>
  \<^verbatim>\<open>decode_dictionary\<close>. The dictionary is an association list, visited in its order;
  anything that is not a dictionary has no \<^verbatim>\<open>iteritems\<close>.
\<close>

function (sequential) decode_dictionary :: "message_type \<Rightarrow> pyobject \<Rightarrow> pyobject result" where
  "decode_dictionary message_type (Dict dictionary) =
     foldM (\<lambda>(key, val) message.
              decode_entry (\<lambda>t item. decode_dictionary t item) message key val)
       dictionary (new_message message_type)"
| "decode_dictionary message_type dictionary = raise AttributeError ''iteritems''"
  by pat_completeness auto
termination
proof (relation "measure (\<lambda>(t, v). height v)")
  fix message_type :: message_type and dictionary :: "(string \<times> pyobject) list"
    and x key val item t
  assume "x \<in> set dictionary" "(key, val) = x" "item \<in> set (as_list val)"
  then have "height item \<le> height val" "height val \<in> set (map (\<lambda>(k, v). height v) dictionary)"
    by (auto simp add: as_list_height intro!: image_eqI [where x = "(key, val)"])
  then have "height item \<le> max_list (map (\<lambda>(k, v). height v) dictionary)"
    using max_list_ge order_trans by blast
  then show "((t, item), (message_type, Dict dictionary)) \<in> measure (\<lambda>(t, v). height v)"
    by simp
qed simp

text \<open>\<^verbatim>\<open>decode_message\<close>.\<close>

definition decode_message :: "simplejson \<Rightarrow> message_type \<Rightarrow> string \<Rightarrow> pyobject result" where
  "decode_message sj message_type encoded_message =
     (if strip encoded_message = [] then Inr (new_message message_type)
      else
        case loads sj encoded_message of
          Inl e \<Rightarrow> Inl e
        | Inr dictionary \<Rightarrow>
            (case decode_dictionary message_type dictionary of
               Inl e \<Rightarrow> Inl e
             | Inr message \<Rightarrow>
                 (case check_initialized message of Inl e \<Rightarrow> Inl e | Inr _ \<Rightarrow> Inr message)))"

section \<open>What the dispatcher takes from other modules\<close>

text \<open>
  \<^verbatim>\<open>int(s)\<close> of Python on a str: surrounding whitespace is dropped, a sign is allowed, and
  anything but decimal digits is a ValueError.
\<close>

definition digit_of :: "char \<Rightarrow> nat option" where
  "digit_of c = (if 48 \<le> (of_char c :: nat) \<and> (of_char c :: nat) \<le> 57
                 then Some ((of_char c :: nat) - 48) else None)"

fun digits_value :: "string \<Rightarrow> nat \<Rightarrow> nat option" where
  "digits_value [] acc = Some acc"
| "digits_value (c # cs) acc =
     (case digit_of c of None \<Rightarrow> None | Some d \<Rightarrow> digits_value cs (10 * acc + d))"

definition python_int :: "string \<Rightarrow> int result" where
  "python_int s =
     (let t = strip s;
          negative = (t \<noteq> [] \<and> hd t = CHR ''-'');
          ds = (if t \<noteq> [] \<and> (hd t = CHR ''-'' \<or> hd t = CHR ''+'') then tl t else t)
      in if ds = [] then raise ValueError s
         else case digits_value ds 0 of
                None \<Rightarrow> raise ValueError s
              | Some n \<Rightarrow> Inr (if negative then - int n else int n))"

text \<open>\<^verbatim>\<open>file.read(n)\<close> on the request body: a negative size reads everything.\<close>

definition read_input :: "string \<Rightarrow> int \<Rightarrow> string" where
  "read_input body n = (if n < 0 then body else take (nat n) body)"

text \<open>The reason phrases of \<^verbatim>\<open>httplib.responses\<close> for the status codes used.\<close>

definition http_responses :: "nat \<Rightarrow> string" where
  "http_responses code =
     (if code = 200 then ''OK''
      else if code = 400 then ''Bad Request''
      else if code = 404 then ''Not Found''
      else if code = 405 then ''Method Not Allowed''
      else if code = 415 then ''Unsupported Media Type''
      else if code = 500 then ''Internal Server Error''
      else ''Unknown Error'')"

text \<open>
  What the WSGI server receives: the status code given to \<^verbatim>\<open>start_response\<close>, the
  content-type header and the body.
\<close>

record response =
  status_code :: nat
  content_type :: string
  content :: string

text \<open>
  Modelled from the spec: \<^verbatim>\<open>wsgi_util.error\<close> of \<^verbatim>\<open>protorpc/wsgi/util.py\<close> builds a static
  handler that answers with the status code, the content type and the content it was
  given; without them the page is plain text and carries the reason phrase.
\<close>

definition wsgi_error :: "nat \<Rightarrow> string option \<Rightarrow> string option \<Rightarrow> response" where
  "wsgi_error code ctype body =
     \<lparr> status_code = code,
       content_type = (case ctype of None \<Rightarrow> ''text/plain; charset=utf-8'' | Some c \<Rightarrow> c),
       content = (case body of None \<Rightarrow> http_responses code | Some b \<Rightarrow> b) \<rparr>"

definition HTTP_BAD_REQUEST :: response where
  "HTTP_BAD_REQUEST = wsgi_error 400 None None"

definition HTTP_NOT_FOUND :: response where
  "HTTP_NOT_FOUND = wsgi_error 404 None None"

definition HTTP_UNSUPPORTED_MEDIA_TYPE :: response where
  "HTTP_UNSUPPORTED_MEDIA_TYPE = wsgi_error 415 None None"

text \<open>
  Modelled from the spec: a protocol entry of \<^verbatim>\<open>remote.Protocols\<close> is a name, a codec and
  the codec's default content type; \<^verbatim>\<open>lookup_by_content_type\<close> is an exact match on the
  content type and raises KeyError when no codec is registered for it.
\<close>

record protocol =
  protocol_name :: string
  default_content_type :: string
  encode :: "pyobject \<Rightarrow> string result"
  decode :: "message_type \<Rightarrow> string \<Rightarrow> pyobject result"

definition lookup_by_content_type :: "protocol list \<Rightarrow> string \<Rightarrow> protocol result" where
  "lookup_by_content_type protocols ctype =
     (case find (\<lambda>p. default_content_type p = ctype) protocols of
        None \<Rightarrow> raise KeyError ctype
      | Some p \<Rightarrow> Inr p)"

text \<open>The entry that \<^verbatim>\<open>protocols.add_protocol(protojson, 'protojson')\<close> registers.\<close>

definition protojson :: "simplejson \<Rightarrow> string \<Rightarrow> protocol" where
  "protojson sj ctype =
     \<lparr> protocol_name = ''protojson'', default_content_type = ctype,
       encode = encode_message sj, decode = decode_message sj \<rparr>"

text \<open>
  Modelled from the spec: \<^verbatim>\<open>remote.RpcState\<close> and \<^verbatim>\<open>remote.RpcStatus\<close>, a message type
  with the fields state, error_message and error_name. The constructor assigns its
  keyword arguments in turn; None leaves a field unset.
\<close>

definition RpcState :: "(string \<times> int) list" where
  "RpcState =
     [(''OK'', 0), (''RUNNING'', 1), (''REQUEST_ERROR'', 2), (''SERVER_ERROR'', 3),
      (''NETWORK_ERROR'', 4), (''APPLICATION_ERROR'', 5), (''METHOD_NOT_FOUND_ERROR'', 6)]"

definition RpcState_value :: "string \<Rightarrow> pyobject" where
  "RpcState_value n = (case map_of RpcState n of None \<Rightarrow> NoneValue | Some k \<Rightarrow> Enum n k)"

definition RpcStatus_type :: message_type where
  "RpcStatus_type =
     MessageType ''RpcStatus''
       [FieldDescriptor ''state'' (EnumField RpcState) False True,
        FieldDescriptor ''error_message'' StringField False False,
        FieldDescriptor ''error_name'' StringField False False]"

definition RpcStatus :: "pyobject \<Rightarrow> string \<Rightarrow> string option \<Rightarrow> pyobject result" where
  "RpcStatus state error_message error_name =
     foldM (\<lambda>(key, v) message. setattr message key v)
       [(''state'', state),
        (''error_message'', Unicode error_message),
        (''error_name'', (case error_name of None \<Rightarrow> NoneValue | Some n \<Rightarrow> Unicode n))]
       (new_message RpcStatus_type)"

text \<open>
  Modelled from the spec: \<^verbatim>\<open>remote.HttpRequestState\<close>, the snapshot handed to a service
  instance that has \<^verbatim>\<open>initialize_request_state\<close>.
\<close>

record request_state =
  state_remote_host :: "string option"
  state_remote_address :: "string option"
  state_server_host :: "string option"
  state_server_port :: "int option"
  state_http_method :: string
  state_service_path :: string
  state_headers :: "(string \<times> string) list"

text \<open>
  The service is the caller's code. A remote method has its request type and a body
  that answers with a response message or raises; a service instance may have the
  \<^verbatim>\<open>initialize_request_state\<close> hook, and what the hook stored is passed on to the method.
  \<^verbatim>\<open>re.compile(...).match\<close> is the parameter \<open>path_matcher\<close>, which answers with the two
  groups of the request path pattern; \<^verbatim>\<open>cgi.parse_header(...)[0]\<close> is \<open>parse_header\<close>.
\<close>

record remote_method =
  request_type :: message_type
  invoke :: "request_state option \<Rightarrow> pyobject \<Rightarrow> pyobject result"

record service_instance =
  initialize_request_state :: "(request_state \<Rightarrow> unit result) option"

record service =
  service_factory :: "service_instance result"
  remote_methods :: "(string \<times> remote_method) list"
  definition_name :: string
  path_matcher :: "string \<Rightarrow> (string \<times> string) option"
  protocols :: "protocol list"
  parse_header :: "string \<Rightarrow> string"
  PROTORPC_PROJECT_URL :: string

text \<open>
  A request: the string entries of the WSGI environment and the content of
  \<^verbatim>\<open>environ['wsgi.input']\<close>.
\<close>

record request =
  environ :: "(string \<times> string) list"
  wsgi_input :: string

text \<open>
  What a call of the application does: it answers, or an exception leaves it. Beside
  that, the calls of remote methods and the lines given to \<^verbatim>\<open>logging.error\<close> are kept.
\<close>

datatype outcome = Responds response | Raises exn

datatype event = Invoked string "pyobject" | Logged string

definition class_name :: "exc_class \<Rightarrow> string" where
  "class_name c =
     (case c of
        ValidationError \<Rightarrow> ''ValidationError'' | DecodeError \<Rightarrow> ''DecodeError''
      | ValueError \<Rightarrow> ''ValueError'' | TypeError \<Rightarrow> ''TypeError'' | KeyError \<Rightarrow> ''KeyError''
      | AttributeError \<Rightarrow> ''AttributeError'' | IndexError \<Rightarrow> ''IndexError''
      | UnicodeDecodeError \<Rightarrow> ''UnicodeDecodeError''
      | ApplicationError error_name \<Rightarrow> ''ApplicationError''
      | OtherException n \<Rightarrow> n)"

section \<open>wsgi/service.py: the dispatcher\<close>

definition environ_get :: "(string \<times> string) list \<Rightarrow> string \<Rightarrow> string option" where
  "environ_get env key = map_of env key"

text \<open>\<^verbatim>\<open>if not x\<close> on the result of \<^verbatim>\<open>environ.get\<close>: None and the empty string are false.\<close>

definition truthy :: "string option \<Rightarrow> bool" where
  "truthy x = (case x of None \<Rightarrow> False | Some s \<Rightarrow> s \<noteq> [])"

text \<open>\<^verbatim>\<open>send_rpc_error\<close>, the helper nested in \<^verbatim>\<open>protorpc_service_app\<close>.\<close>

definition send_rpc_error ::
  "protocol \<Rightarrow> nat \<Rightarrow> pyobject \<Rightarrow> string \<Rightarrow> string option \<Rightarrow> outcome" where
  "send_rpc_error protocol code state message error_name =
     (case RpcStatus state message error_name of
        Inl e \<Rightarrow> Raises e
      | Inr status \<Rightarrow>
          (case encode protocol status of
             Inl e \<Rightarrow> Raises e
           | Inr encoded_status \<Rightarrow>
               Responds (wsgi_error code (Some (default_content_type protocol))
                           (Some encoded_status))))"

text \<open>The informational page of a request that is not a POST.\<close>

definition method_not_allowed_content :: "service \<Rightarrow> string \<Rightarrow> string \<Rightarrow> string" where
  "method_not_allowed_content svc service_path method_name =
     PROTORPC_PROJECT_URL svc @ ''.'' @ service_path @ '' is a ProtoRPC method.''
       @ [CHR 0x0A, CHR 0x0A] @ ''Service '' @ method_name
       @ [CHR 0x0A, CHR 0x0A] @ ''More about ProtoRPC: '' @ utf8_encode (definition_name svc)
       @ [CHR 0x0A]"

text \<open>The headers of the request state: every \<^verbatim>\<open>HTTP_\<close> entry, renamed.\<close>

definition lower_char :: "char \<Rightarrow> char" where
  "lower_char c = (if 65 \<le> (of_char c :: nat) \<and> (of_char c :: nat) \<le> 90
                   then char_of ((of_char c :: nat) + 32) else c)"

definition header_name :: "string \<Rightarrow> string" where
  "header_name n =
     map (\<lambda>c. if c = CHR ''_'' then CHR ''-'' else c) (map lower_char (drop 5 n))"

definition request_headers :: "(string \<times> string) list \<Rightarrow> (string \<times> string) list" where
  "request_headers env =
     map (\<lambda>(n, v). (header_name n, v)) (filter (\<lambda>(n, v). take 5 n = ''HTTP_'') env)"

definition make_request_state ::
  "(string \<times> string) list \<Rightarrow> string \<Rightarrow> string \<Rightarrow> request_state result" where
  "make_request_state env request_method service_path =
     (case (if truthy (environ_get env ''SERVER_PORT'')
            then (case python_int (the (environ_get env ''SERVER_PORT'')) of
                    Inl e \<Rightarrow> Inl e | Inr n \<Rightarrow> Inr (Some n))
            else Inr None) of
        Inl e \<Rightarrow> Inl e
      | Inr port \<Rightarrow>
          Inr \<lparr> state_remote_host = environ_get env ''REMOTE_HOST'',
                state_remote_address = environ_get env ''REMOTE_ADDR'',
                state_server_host = environ_get env ''SERVER_HOST'',
                state_server_port = port,
                state_http_method = request_method,
                state_service_path = service_path,
                state_headers = request_headers env \<rparr>)"

text \<open>
  Lines 159 to 182: the instance is built and, when it has the hook, given the request
  state.
\<close>

definition prepare_instance ::
  "service \<Rightarrow> (string \<times> string) list \<Rightarrow> string \<Rightarrow> string \<Rightarrow> request_state option result" where
  "prepare_instance svc env request_method service_path =
     (case service_factory svc of
        Inl e \<Rightarrow> Inl e
      | Inr instance \<Rightarrow>
          (case initialize_request_state instance of
             None \<Rightarrow> Inr None
           | Some hook \<Rightarrow>
               (case make_request_state env request_method service_path of
                  Inl e \<Rightarrow> Inl e
                | Inr state \<Rightarrow>
                    (case hook state of Inl e \<Rightarrow> Inl e | Inr _ \<Rightarrow> Inr (Some state)))))"

text \<open>
  Lines 184 to 203: the call of the method and the encoding of its answer stand in one
  \<^verbatim>\<open>try\<close>; an ApplicationError is reported with its message and name, any other
  exception is logged and reported as a server error.
\<close>

definition invoke_method ::
  "protocol \<Rightarrow> string \<Rightarrow> string \<Rightarrow> remote_method \<Rightarrow> request_state option \<Rightarrow> pyobject
     \<Rightarrow> outcome \<times> event list" where
  "invoke_method protocol ctype method_name method state request =
     (case (case invoke method state request of
              Inl err \<Rightarrow> Inl err
            | Inr response \<Rightarrow> encode protocol response) of
        Inr encoded_response \<Rightarrow>
          (Responds \<lparr> status_code = 200, content_type = ctype, content = encoded_response \<rparr>,
           [Invoked method_name request])
      | Inl err \<Rightarrow>
          (case exn_class err of
             ApplicationError error_name \<Rightarrow>
               (send_rpc_error protocol 400 (RpcState_value ''APPLICATION_ERROR'')
                  (exn_text err) error_name,
                [Invoked method_name request])
           | _ \<Rightarrow>
               (send_rpc_error protocol 500 (RpcState_value ''SERVER_ERROR'')
                  ''Internal Server Error'' None,
                [Invoked method_name request,
                 Logged (''Encountered unexpected error from ProtoRPC method implementation: ''
                         @ class_name (exn_class err) @ '' ('' @ exn_text err @ '')'')])))"

text \<open>Lines 141 to 203, after the codec has been found.\<close>

definition handle_rpc ::
  "service \<Rightarrow> request \<Rightarrow> protocol \<Rightarrow> string \<Rightarrow> string \<Rightarrow> string \<Rightarrow> string
     \<Rightarrow> outcome \<times> event list" where
  "handle_rpc svc req protocol ctype service_path method_name request_method =
     (case map_of (remote_methods svc) method_name of
        None \<Rightarrow>
          (send_rpc_error protocol 400 (RpcState_value ''METHOD_NOT_FOUND_ERROR'')
             (''Unrecognized RPC method: '' @ method_name) None, [])
      | Some method \<Rightarrow>
          (case python_int (case environ_get (environ req) ''CONTENT_LENGTH'' of
                              None \<Rightarrow> ''0'' | Some n \<Rightarrow> n) of
             Inl e \<Rightarrow> (Raises e, [])
           | Inr content_length \<Rightarrow>
               (case decode protocol (request_type method)
                       (read_input (wsgi_input req) content_length) of
                  Inl err \<Rightarrow>
                    if exn_class err = ValidationError \<or> exn_class err = DecodeError
                    then (send_rpc_error protocol 400 (RpcState_value ''REQUEST_ERROR'')
                            (''Error parsing ProtoRPC request (Unable to parse request content: ''
                             @ exn_text err @ '')'') None, [])
                    else (Raises err, [])
                | Inr request \<Rightarrow>
                    (case prepare_instance svc (environ req) request_method service_path of
                       Inl e \<Rightarrow> (Raises e, [])
                     | Inr state \<Rightarrow>
                         invoke_method protocol ctype method_name method state request))))"

text \<open>\<^verbatim>\<open>protorpc_service_app\<close>, lines 79 to 114, and the rest through \<open>handle_rpc\<close>.\<close>

definition protorpc_service_app :: "service \<Rightarrow> request \<Rightarrow> outcome \<times> event list" where
  "protorpc_service_app svc req =
     (case environ_get (environ req) ''PATH_INFO'' of
        None \<Rightarrow> (Raises (Exn KeyError ''PATH_INFO''), [])
      | Some path_info \<Rightarrow>
          (case path_matcher svc path_info of
             None \<Rightarrow> (Responds HTTP_NOT_FOUND, [])
           | Some (service_path, method_name) \<Rightarrow>
               (let ctype = (if truthy (environ_get (environ req) ''CONTENT_TYPE'')
                             then environ_get (environ req) ''CONTENT_TYPE''
                             else environ_get (environ req) ''HTTP_CONTENT_TYPE'')
                in if \<not> truthy ctype then (Responds HTTP_BAD_REQUEST, [])
                   else
                     (let ctype = parse_header svc (the ctype) in
                      case environ_get (environ req) ''REQUEST_METHOD'' of
                        None \<Rightarrow> (Raises (Exn KeyError ''REQUEST_METHOD''), [])
                      | Some request_method \<Rightarrow>
                          if request_method \<noteq> ''POST''
                          then (Responds
                                  (wsgi_error 405 (Some ''text/plain; charset=utf-8'')
                                     (Some (method_not_allowed_content svc service_path
                                              method_name))), [])
                          else
                            (case lookup_by_content_type (protocols svc) ctype of
                               Inl e \<Rightarrow> (Responds HTTP_UNSUPPORTED_MEDIA_TYPE, [])
                             | Inr protocol \<Rightarrow>
                                 handle_rpc svc req protocol ctype service_path method_name
                                   request_method)))))"


section \<open>Messages as the schema keeps them, and the wire format of the spec\<close>

text \<open>
  The schema checks every assignment, so a message holds, for each field, either no
  value or a value of the field's kind. \<open>well_typed\<close> says so for a message and for the
  messages nested in it; it also asks what Python asks of the class definitions: field
  names and enum names are distinct, and enum names are identifiers (ASCII).
\<close>

definition ascii :: "string \<Rightarrow> bool" where
  "ascii s = list_all (\<lambda>c. (of_char c :: nat) < 128) s"

definition enum_names_ok :: "kind \<Rightarrow> bool" where
  "enum_names_ok k =
     (case k of
        EnumField values \<Rightarrow> distinct (map fst values) \<and> list_all ascii (map fst values)
      | _ \<Rightarrow> True)"

fun well_typed :: "pyobject \<Rightarrow> bool" where
  "well_typed (Message t slots) =
     (length slots = length (all_fields t)
      \<and> distinct (map name (all_fields t))
      \<and> list_all (\<lambda>(f, item). item = NoneValue \<or> (validate f item \<and> enum_names_ok (kind f)))
            (zip (all_fields t) slots)
      \<and> list_all well_typed slots)"
| "well_typed (List vs) = list_all well_typed vs"
| "well_typed _ = True"

text \<open>
  A message that does not rely on the distinction between an unset field and an empty
  collection: no field, at any depth, holds an empty list.
\<close>

fun no_empty_list :: "pyobject \<Rightarrow> bool" where
  "no_empty_list (Message t slots) = list_all no_empty_list slots"
| "no_empty_list (List vs) = (vs \<noteq> [] \<and> list_all no_empty_list vs)"
| "no_empty_list _ = True"

text \<open>
  The rendering of section 6 of the spec, written from its words: a message is an object
  whose keys are the names of the fields that hold a value other than None or an empty
  sequence; an enum value is its name, bytes are base64 text, a repeated field is an
  array, a nested message is a nested object, every other scalar is itself.
\<close>

definition retained :: "pyobject \<Rightarrow> bool" where
  "retained item = (item \<noteq> NoneValue \<and> item \<noteq> List [])"

function wire_value :: "pyobject \<Rightarrow> pyobject" where
  "wire_value (Enum n k) = Unicode n"
| "wire_value (Str s) = Unicode (b64encode s)"
| "wire_value (List vs) = List (map wire_value vs)"
| "wire_value (Message t slots) =
     Dict (map (\<lambda>(f, item). (name f, wire_value item))
             (filter (\<lambda>(f, item). retained item) (zip (all_fields t) slots)))"
| "wire_value NoneValue = NoneValue"
| "wire_value (Bool b) = Bool b"
| "wire_value (Integer i) = Integer i"
| "wire_value (Float x) = Float x"
| "wire_value (Unicode s) = Unicode s"
| "wire_value (Dict kvs) = Dict kvs"
  by pat_completeness auto
termination
  by (relation "measure height")
    (auto simp add: less_Suc_eq_le intro!: le_SucI max_list_ge dest!: set_zip_rightD)

text \<open>Whether a Python object is a message instance.\<close>

definition is_message :: "pyobject \<Rightarrow> bool" where
  "is_message v = (case v of Message t slots \<Rightarrow> True | _ \<Rightarrow> False)"

section \<open>A JSON text layer and a schema for the examples\<close>

text \<open>
  An instance of the \<^verbatim>\<open>simplejson\<close> parameter for the examples below: a writer in the
  layout of \<^verbatim>\<open>simplejson.dumps\<close> (separators \<^verbatim>\<open>", "\<close> and \<^verbatim>\<open>": "\<close>, non-ASCII text escaped)
  and a reader of the same texts. Floats are written in decimal with at most 17
  fractional digits and read without an exponent. No theorem below depends on it except
  the examples.
\<close>

fun digits_of :: "nat \<Rightarrow> nat \<Rightarrow> string" where
  "digits_of 0 n = []"
| "digits_of (Suc fuel) n =
     (if n < 10 then [char_of (48 + n)]
      else digits_of fuel (n div 10) @ [char_of (48 + n mod 10)])"

definition decimal :: "int \<Rightarrow> string" where
  "decimal i = (if i < 0 then CHR ''-'' # digits_of (Suc (nat (- i))) (nat (- i))
                else digits_of (Suc (nat i)) (nat i))"

fun fraction_digits :: "nat \<Rightarrow> nat \<Rightarrow> nat \<Rightarrow> string" where
  "fraction_digits 0 r d = []"
| "fraction_digits (Suc fuel) r d =
     (if r = 0 then [] else char_of (48 + (10 * r) div d) # fraction_digits fuel ((10 * r) mod d) d)"

definition float_text :: "rat \<Rightarrow> string" where
  "float_text x =
     (let (n, d) = quotient_of x; a = nat (abs n); q = nat d;
          frac = fraction_digits 17 (a mod q) q
      in (if n < 0 then ''-'' else []) @ decimal (int (a div q)) @ ''.''
           @ (if frac = [] then ''0'' else frac))"

definition hex_digit :: "nat \<Rightarrow> char" where
  "hex_digit n = (if n < 10 then char_of (48 + n) else char_of (87 + n))"

definition escape_char :: "char \<Rightarrow> string" where
  "escape_char c =
     (if c = CHR 0x22 then [CHR 0x5C, CHR 0x22]
      else if c = CHR 0x5C then [CHR 0x5C, CHR 0x5C]
      else if c = CHR 0x0A then [CHR 0x5C, CHR ''n'']
      else if c = CHR 0x0D then [CHR 0x5C, CHR ''r'']
      else if c = CHR 0x09 then [CHR 0x5C, CHR ''t'']
      else if (of_char c :: nat) < 32 \<or> 127 \<le> (of_char c :: nat)
      then [CHR 0x5C, CHR ''u'', CHR ''0'', CHR ''0'',
            hex_digit ((of_char c :: nat) div 16), hex_digit ((of_char c :: nat) mod 16)]
      else [c])"

definition quoted :: "string \<Rightarrow> string" where
  "quoted s = [CHR 0x22] @ concat (map escape_char s) @ [CHR 0x22]"

fun join :: "string \<Rightarrow> string list \<Rightarrow> string" where
  "join sep [] = []"
| "join sep [x] = x"
| "join sep (x # y # ys) = x @ sep @ join sep (y # ys)"

function json_text :: "pyobject \<Rightarrow> string" where
  "json_text NoneValue = ''null''"
| "json_text (Bool b) = (if b then ''true'' else ''false'')"
| "json_text (Integer i) = decimal i"
| "json_text (Float x) = float_text x"
| "json_text (Unicode s) = quoted s"
| "json_text (List vs) = ''['' @ join '', '' (map json_text vs) @ '']''"
| "json_text (Dict kvs) =
     ''{'' @ join '', '' (map (\<lambda>(k, v). quoted k @ '': '' @ json_text v) kvs) @ ''}''"
| "json_text (Str s) = ''null''"
| "json_text (Enum n k) = ''null''"
| "json_text (Message t slots) = ''null''"
  by pat_completeness auto
termination
  by (relation "measure height") (auto simp add: less_Suc_eq_le intro!: max_list_ge)


text \<open>The reader: a recursive descent over the text, with a bound on the number of calls.\<close>

definition hex_value :: "char \<Rightarrow> nat option" where
  "hex_value c =
     (let k = (of_char c :: nat) in
      if 48 \<le> k \<and> k \<le> 57 then Some (k - 48)
      else if 97 \<le> k \<and> k \<le> 102 then Some (k - 87)
      else if 65 \<le> k \<and> k \<le> 70 then Some (k - 55)
      else None)"

definition unescape :: "char \<Rightarrow> char option" where
  "unescape e =
     (if e = CHR 0x22 \<or> e = CHR 0x5C \<or> e = CHR ''/'' then Some e
      else if e = CHR ''n'' then Some (CHR 0x0A)
      else if e = CHR ''r'' then Some (CHR 0x0D)
      else if e = CHR ''t'' then Some (CHR 0x09)
      else if e = CHR ''b'' then Some (CHR 0x08)
      else if e = CHR ''f'' then Some (CHR 0x0C)
      else None)"

fun parse_string :: "string \<Rightarrow> string \<Rightarrow> (string \<times> string) option" where
  "parse_string [] acc = None"
| "parse_string [c] acc = (if c = CHR 0x22 then Some (rev acc, []) else None)"
| "parse_string (c # e # r) acc =
     (if c = CHR 0x22 then Some (rev acc, e # r)
      else if c \<noteq> CHR 0x5C then parse_string (e # r) (c # acc)
      else if e = CHR ''u'' then
        (case (map hex_value (take 4 r), length r < 4) of
           ([Some 0, Some 0, Some h, Some l], False) \<Rightarrow>
             parse_string (drop 4 r) (char_of (16 * h + l) # acc)
         | _ \<Rightarrow> None)
      else (case unescape e of None \<Rightarrow> None | Some x \<Rightarrow> parse_string r (x # acc)))"

definition is_digit :: "char \<Rightarrow> bool" where
  "is_digit c = (digit_of c \<noteq> None)"

definition parse_number :: "string \<Rightarrow> (pyobject \<times> string) option" where
  "parse_number s =
     (let negative = (s \<noteq> [] \<and> hd s = CHR ''-'');
          body = (if negative then tl s else s);
          whole = takeWhile is_digit body;
          rest = dropWhile is_digit body
      in if whole = [] then None
         else
           (let n = int (the (digits_value whole 0)) in
            if rest \<noteq> [] \<and> hd rest = CHR ''.'' \<and> takeWhile is_digit (tl rest) \<noteq> []
            then
              (let frac = takeWhile is_digit (tl rest);
                   x = of_int n + of_int (int (the (digits_value frac 0))) / 10 ^ length frac
               in Some (Float (if negative then - x else x), dropWhile is_digit (tl rest)))
            else Some (Integer (if negative then - n else n), rest)))"

fun parse_value :: "nat \<Rightarrow> string \<Rightarrow> (pyobject \<times> string) option"
  and parse_elements :: "nat \<Rightarrow> string \<Rightarrow> pyobject list \<Rightarrow> (pyobject \<times> string) option"
  and parse_members :: "nat \<Rightarrow> string \<Rightarrow> (string \<times> pyobject) list \<Rightarrow> (pyobject \<times> string) option"
where
  "parse_value 0 s = None"
| "parse_value (Suc n) s =
     (case dropWhile is_space s of
        [] \<Rightarrow> None
      | c # r \<Rightarrow>
          if c = CHR ''['' then
            (let r' = dropWhile is_space r in
             if r' \<noteq> [] \<and> hd r' = CHR '']'' then Some (List [], tl r')
             else parse_elements n r [])
          else if c = CHR ''{'' then
            (let r' = dropWhile is_space r in
             if r' \<noteq> [] \<and> hd r' = CHR ''}'' then Some (Dict [], tl r')
             else parse_members n r [])
          else if c = CHR 0x22 then
            (case parse_string r [] of None \<Rightarrow> None | Some (t, r') \<Rightarrow> Some (Unicode t, r'))
          else if take 4 (c # r) = ''null'' then Some (NoneValue, drop 3 r)
          else if take 4 (c # r) = ''true'' then Some (Bool True, drop 3 r)
          else if take 5 (c # r) = ''false'' then Some (Bool False, drop 4 r)
          else parse_number (c # r))"
| "parse_elements 0 s acc = None"
| "parse_elements (Suc n) s acc =
     (case parse_value n s of
        None \<Rightarrow> None
      | Some (v, r) \<Rightarrow>
          (case dropWhile is_space r of
             [] \<Rightarrow> None
           | c # r' \<Rightarrow>
               if c = CHR '','' then parse_elements n r' (v # acc)
               else if c = CHR '']'' then Some (List (rev (v # acc)), r')
               else None))"
| "parse_members 0 s acc = None"
| "parse_members (Suc n) s acc =
     (case dropWhile is_space s of
        [] \<Rightarrow> None
      | c # r \<Rightarrow>
          if c \<noteq> CHR 0x22 then None
          else
            (case parse_string r [] of
               None \<Rightarrow> None
             | Some (k, r1) \<Rightarrow>
                 (case dropWhile is_space r1 of
                    [] \<Rightarrow> None
                  | c1 # r2 \<Rightarrow>
                      if c1 \<noteq> CHR '':'' then None
                      else
                        (case parse_value n r2 of
                           None \<Rightarrow> None
                         | Some (v, r3) \<Rightarrow>
                             (let acc' = (k, v) # filter (\<lambda>(k', v'). k' \<noteq> k) acc in
                              case dropWhile is_space r3 of
                                [] \<Rightarrow> None
                              | c3 # r4 \<Rightarrow>
                                  if c3 = CHR '','' then parse_members n r4 acc'
                                  else if c3 = CHR ''}'' then Some (Dict (rev acc'), r4)
                                  else None)))))"

definition json_parse :: "string \<Rightarrow> pyobject result" where
  "json_parse s =
     (case parse_value (2 * length s + 2) s of
        None \<Rightarrow> raise ValueError ''No JSON object could be decoded''
      | Some (v, r) \<Rightarrow>
          if dropWhile is_space r = [] then Inr v else raise ValueError ''Extra data'')"

definition simplejson_example :: simplejson where
  "simplejson_example = \<lparr> dumps = json_text, loads = json_parse \<rparr>"

text \<open>A message type with a field of every kind that the codec treats specially.\<close>

definition Color :: "(string \<times> int) list" where
  "Color = [(''RED'', 1), (''GREEN'', 2)]"

definition Inner :: message_type where
  "Inner = MessageType ''Inner'' [FieldDescriptor ''x'' FloatField False False]"

definition Example :: message_type where
  "Example =
     MessageType ''Example''
       [FieldDescriptor ''a'' IntegerField False True,
        FieldDescriptor ''b'' BytesField True False,
        FieldDescriptor ''c'' BytesField False False,
        FieldDescriptor ''d'' (EnumField Color) False False,
        FieldDescriptor ''e'' (MessageField Inner) False False,
        FieldDescriptor ''f'' StringField False False]"

definition example_message :: "pyobject" where
  "example_message =
     Message Example
       [Integer 3, List [Str ''Man'', Str [CHR 0x00, CHR 0xFF]], Str [CHR 0xC3],
        Enum ''RED'' 1, Message Inner [Float (3 / 2)], NoneValue]"

section \<open>Base64 decodes what it encoded\<close>

lemma b64index_b64char: "n < 64 \<Longrightarrow> b64index (b64char n) = Some n"
  by (auto simp add: b64index_def b64char_def Let_def)

lemma b64char_not_pad: "b64char n \<noteq> CHR ''=''"
proof -
  have "(of_char (b64char n) :: nat) \<noteq> 61"
    by (auto simp add: b64char_def)
  then show ?thesis by auto
qed

lemma of_char_lt_256: "(of_char c :: nat) < 256"
proof -
  have "(of_char c :: nat) mod 256 < 256" by simp
  then show ?thesis by (simp only: of_char_mod_256)
qed

lemma sextet_lt_64_nat:
  fixes x y z :: nat
  assumes "x < 256" "y < 256" "z < 256"
  shows "x div 4 < 64" "(x mod 4) * 16 + y div 16 < 64" "(x mod 4) * 16 + 0 div 16 < 64"
    "(y mod 16) * 4 + z div 64 < 64"  "(y mod 16) * 4 + 0 div 64 < 64" "z mod 64 < 64"
  using assms by auto

lemma sextet_lt_64:
  "sextet1 a < 64" "sextet2 a (of_char b) < 64" "sextet2 a 0 < 64"
  "sextet3 b (of_char c) < 64" "sextet3 b 0 < 64" "sextet4 c < 64"
  unfolding sextet1_def sextet2_def sextet3_def sextet4_def
  by (rule sextet_lt_64_nat [OF of_char_lt_256 of_char_lt_256 of_char_lt_256])+

lemma octet_arith:
  fixes x y z :: nat
  assumes "x < 256" "y < 256" "z < 256"
  shows "x div 4 * 4 + ((x mod 4) * 16 + y div 16) div 16 = x"
    and "(((x mod 4) * 16 + y div 16) mod 16) * 16 + ((y mod 16) * 4 + z div 64) div 4 = y"
    and "(((y mod 16) * 4 + z div 64) mod 4) * 64 + z mod 64 = z"
  using assms by auto

lemma octet_sextet:
  "octet1 (sextet1 a) (sextet2 a (of_char b)) = a"
  "octet1 (sextet1 a) (sextet2 a 0) = a"
  "octet2 (sextet2 a (of_char b)) (sextet3 b (of_char c)) = b"
  "octet2 (sextet2 a (of_char b)) (sextet3 b 0) = b"
  "octet3 (sextet3 b (of_char c)) (sextet4 c) = c"
proof -
  note lt = of_char_lt_256 [of a] of_char_lt_256 [of b] of_char_lt_256 [of c]
  show "octet1 (sextet1 a) (sextet2 a (of_char b)) = a"
    unfolding octet1_def sextet1_def sextet2_def
    by (simp only: octet_arith(1) [OF lt(1) lt(2) lt(3)] char_of_char)
  show "octet1 (sextet1 a) (sextet2 a 0) = a"
    unfolding octet1_def sextet1_def sextet2_def
    by (simp only: octet_arith(1) [OF lt(1) _ lt(3), of 0] char_of_char)
  show "octet2 (sextet2 a (of_char b)) (sextet3 b (of_char c)) = b"
    unfolding octet2_def sextet3_def sextet2_def
    by (simp only: octet_arith(2) [OF lt(1) lt(2) lt(3)] char_of_char)
  show "octet2 (sextet2 a (of_char b)) (sextet3 b 0) = b"
    unfolding octet2_def sextet3_def sextet2_def
    by (simp only: octet_arith(2) [OF lt(1) lt(2), of 0] char_of_char)
  show "octet3 (sextet3 b (of_char c)) (sextet4 c) = c"
    unfolding octet3_def sextet3_def sextet4_def
    by (simp only: octet_arith(3) [OF lt(1) lt(2) lt(3)] char_of_char)
qed

lemma b64decode_b64encode: "b64decode (b64encode s) = Some s"
proof (induction s rule: b64encode.induct)
  case 1
  show ?case by simp
next
  case (2 a)
  show ?case
    by (simp add: b64index_b64char sextet_lt_64 octet_sextet)
next
  case (3 a b)
  show ?case
    by (simp add: b64index_b64char sextet_lt_64 octet_sextet b64char_not_pad)
next
  case (4 a b c rest)
  then show ?case
    by (simp add: b64index_b64char sextet_lt_64 octet_sextet b64char_not_pad)
qed


section \<open>The encoder writes the wire format of the spec\<close>

lemma b64char_ascii: "(of_char (b64char n) :: nat) < 128"
  by (auto simp add: b64char_def)

lemma b64encode_ascii: "ascii (b64encode s)"
  by (induction s rule: b64encode.induct) (simp_all add: ascii_def b64char_ascii)

lemma utf8_decode_ascii: "ascii s \<Longrightarrow> utf8_decode s = Some s"
  by (induction s rule: utf8_decode.induct) (simp_all add: ascii_def)

lemma utf8_encode_ascii: "ascii s \<Longrightarrow> utf8_encode s = s"
  by (induction s) (simp_all add: ascii_def utf8_encode_def)

lemma mapM_map: "(\<And>x. x \<in> set xs \<Longrightarrow> f x = Inr (g x)) \<Longrightarrow> mapM f xs = Inr (map g xs)"
  by (induction xs) simp_all

lemma mapM_length: "mapM f xs = Inr ys \<Longrightarrow> length ys = length xs"
  by (induction xs arbitrary: ys) (auto split: sum.splits)

lemma height_in_list: "x \<in> set vs \<Longrightarrow> height x < height (List vs)"
  by (simp add: less_Suc_eq_le max_list_ge)

lemma height_in_slots: "x \<in> set slots \<Longrightarrow> height x < height (Message t slots)"
  by (simp add: less_Suc_eq_le le_SucI max_list_ge)

lemma element_wire:
  assumes "validate_element k v" and "enum_names_ok k" and "k \<noteq> BytesField"
    and "is_message v \<Longrightarrow> jsonify v = Inr (wire_value v)"
  shows "jsonify v = Inr (wire_value v)"
proof (cases v)
  case (Enum n i)
  with assms(1) obtain vals where k: "k = EnumField vals" "(n, i) \<in> set vals"
    by (cases k) auto
  with assms(2) have "ascii n"
    by (auto simp add: enum_names_ok_def list_all_iff)
  with Enum show ?thesis by (simp add: utf8_decode_ascii)
next
  case (Message t slots)
  with assms(4) show ?thesis by (simp add: is_message_def)
qed (use assms(1,3) in \<open>cases k; simp\<close>)+

lemma bytes_wire:
  assumes "validate_element BytesField v"
  shows "\<exists>w. b64encode_value v = Inr w \<and> jsonify w = Inr (wire_value v)"
  using assms by (cases v) (simp_all add: utf8_decode_ascii b64encode_ascii)

lemma field_wire:
  assumes "validate f item" and "enum_names_ok (kind f)"
    and "\<And>x. height x \<le> height item \<Longrightarrow> is_message x \<Longrightarrow> well_typed x
          \<Longrightarrow> jsonify x = Inr (wire_value x)"
    and "well_typed item"
  shows "\<exists>item'. encode_bytes f item = Inr item' \<and> jsonify item' = Inr (wire_value item)"
proof (cases "repeated f")
  case False
  with assms(1) have v: "validate_element (kind f) item" by (simp add: validate_def)
  show ?thesis
  proof (cases "kind f = BytesField")
    case True
    with v False bytes_wire [of item] show ?thesis by (simp add: encode_bytes_def)
  next
    case nb: False
    have "jsonify item = Inr (wire_value item)"
      by (rule element_wire [OF v assms(2) nb]) (simp add: assms(3,4))
    with nb show ?thesis by (simp add: encode_bytes_def)
  qed
next
  case True
  with assms(1) obtain vs where item: "item = List vs"
    and vs: "\<And>x. x \<in> set vs \<Longrightarrow> validate_element (kind f) x"
    by (auto simp add: validate_def list_all_iff split: pyobject.splits)
  show ?thesis
  proof (cases "kind f = BytesField")
    case True
    have "\<exists>ws. mapM b64encode_value vs = Inr ws \<and> mapM jsonify ws = Inr (map wire_value vs)"
      using vs
    proof (induction vs)
      case Nil
      show ?case by simp
    next
      case (Cons a vs)
      from Cons.prems True bytes_wire [of a]
      obtain w where w: "b64encode_value a = Inr w" "jsonify w = Inr (wire_value a)"
        by auto
      from Cons obtain ws where
        "mapM b64encode_value vs = Inr ws" "mapM jsonify ws = Inr (map wire_value vs)"
        by auto
      with w show ?case by simp
    qed
    with True \<open>repeated f\<close> item show ?thesis by (auto simp add: encode_bytes_def)
  next
    case nb: False
    have "mapM jsonify vs = Inr (map wire_value vs)"
    proof (rule mapM_map)
      fix x assume x: "x \<in> set vs"
      show "jsonify x = Inr (wire_value x)"
      proof (rule element_wire [OF vs [OF x] assms(2) nb])
        assume "is_message x"
        moreover have "height x \<le> height item" "well_typed x"
          using x item height_in_list [of x vs] assms(4) by (auto simp add: list_all_iff)
        ultimately show "jsonify x = Inr (wire_value x)" by (simp add: assms(3))
      qed
    qed
    with nb item show ?thesis by (simp add: encode_bytes_def)
  qed
qed

lemma field_index_at:
  "distinct (map name (pre @ f # rest)) \<Longrightarrow> field_index (pre @ f # rest) (name f) = Some (length pre)"
  by (induction pre) auto

lemma default_loop_wire:
  assumes "all_fields t = pre @ fs'" and "slots = spre @ slots'"
    and "length spre = length pre" and "length slots' = length fs'"
    and "distinct (map name (all_fields t))"
    and "\<forall>(f, item) \<in> set (zip fs' slots').
           item = NoneValue \<or> (validate f item \<and> enum_names_ok (kind f))"
    and "\<forall>item \<in> set slots'. well_typed item"
    and H: "\<And>x. height x < height (Message t slots) \<Longrightarrow> is_message x \<Longrightarrow> well_typed x
          \<Longrightarrow> jsonify x = Inr (wire_value x)"
  shows "\<exists>result. default_loop (Message t slots) fs' = Inr result
           \<and> mapM (\<lambda>(k, v). case jsonify v of Inl e \<Rightarrow> Inl e | Inr j \<Rightarrow> Inr (k, j)) result
               = Inr (map (\<lambda>(f, item). (name f, wire_value item))
                       (filter (\<lambda>(f, item). retained item) (zip fs' slots')))"
  using assms(1-4,6,7)
proof (induction fs' arbitrary: pre spre slots')
  case Nil
  then show ?case by simp
next
  case (Cons f fs'')
  from Cons.prems(4) obtain item slots'' where sl: "slots' = item # slots''"
    by (cases slots') auto
  have idx: "field_index (all_fields t) (name f) = Some (length pre)"
    using assms(5) Cons.prems(1) field_index_at [of pre f fs''] by simp
  have nth: "slots ! length pre = item" "length pre < length slots"
    using Cons.prems(2,3) sl by (simp_all add: nth_append)
  have get: "get_assigned_value (Message t slots) (name f) = Inr item"
    using idx nth by simp
  have "\<exists>result. default_loop (Message t slots) fs'' = Inr result
           \<and> mapM (\<lambda>(k, v). case jsonify v of Inl e \<Rightarrow> Inl e | Inr j \<Rightarrow> Inr (k, j)) result
               = Inr (map (\<lambda>(f, item). (name f, wire_value item))
                       (filter (\<lambda>(f, item). retained item) (zip fs'' slots'')))"
    using Cons.prems sl by (intro Cons.IH [of "pre @ [f]" "spre @ [item]" slots'']) auto
  then obtain rest where rest: "default_loop (Message t slots) fs'' = Inr rest"
    "mapM (\<lambda>(k, v). case jsonify v of Inl e \<Rightarrow> Inl e | Inr j \<Rightarrow> Inr (k, j)) rest
       = Inr (map (\<lambda>(f, item). (name f, wire_value item))
               (filter (\<lambda>(f, item). retained item) (zip fs'' slots'')))"
    by blast
  show ?case
  proof (cases "retained item")
    case False
    with get rest sl show ?thesis by (auto simp add: retained_def)
  next
    case True
    then have v: "validate f item" "enum_names_ok (kind f)" "well_typed item"
      using Cons.prems(5,6) sl by (auto simp add: retained_def)
    have "item \<in> set slots" using Cons.prems(2) sl by simp
    then have lt: "height item < height (Message t slots)" by (rule height_in_slots)
    have "\<exists>item'. encode_bytes f item = Inr item' \<and> jsonify item' = Inr (wire_value item)"
      by (rule field_wire [OF v(1,2) _ v(3)]) (use lt H in auto)
    then obtain item' where "encode_bytes f item = Inr item'"
      "jsonify item' = Inr (wire_value item)" by blast
    with True get rest sl show ?thesis by (auto simp add: retained_def)
  qed
qed

lemma jsonify_Dict:
  "jsonify (Dict kvs) =
     (case mapM (\<lambda>(k, v). case jsonify v of Inl e \<Rightarrow> Inl e | Inr j \<Rightarrow> Inr (k, j)) kvs of
        Inl e \<Rightarrow> Inl e | Inr js \<Rightarrow> Inr (Dict js))"
  by simp

lemma jsonify_wire_value:
  "is_message v \<Longrightarrow> well_typed v \<Longrightarrow> jsonify v = Inr (wire_value v)"
proof (induction v rule: measure_induct_rule [where f = height])
  case (less v)
  from less.prems(1) obtain t slots where v: "v = Message t slots"
    by (cases v) (auto simp add: is_message_def)
  have "\<exists>result. default_loop (Message t slots) (all_fields t) = Inr result
           \<and> mapM (\<lambda>(k, v). case jsonify v of Inl e \<Rightarrow> Inl e | Inr j \<Rightarrow> Inr (k, j)) result
               = Inr (map (\<lambda>(f, item). (name f, wire_value item))
                       (filter (\<lambda>(f, item). retained item) (zip (all_fields t) slots)))"
    using less.prems(2) less.IH v
    by (intro default_loop_wire [of t "[]" _ slots "[]"]) (auto simp add: list_all_iff)
  then show ?case
    unfolding v by (auto simp del: jsonify.simps(8) simp add: jsonify_Dict)
qed


section \<open>The decoder reads the wire format back\<close>

lemma field_index_Some:
  "field_index fs key = Some i \<Longrightarrow> i < length fs \<and> name (fs ! i) = key"
  by (induction fs arbitrary: i) (auto split: if_splits)

lemma field_index_name:
  "field_index fs key = Some i \<Longrightarrow> field_index fs (name (fs ! i)) = Some i"
  using field_index_Some by fastforce

lemma field_index_None: "field_index fs key = None \<longleftrightarrow> key \<notin> set (map name fs)"
  by (induction fs) auto

lemma wire_value_not_None: "v \<noteq> NoneValue \<Longrightarrow> wire_value v \<noteq> NoneValue"
  by (cases v) simp_all

lemma element_unwire:
  assumes "validate_element (kind f) v" and "enum_names_ok (kind f)"
    and "\<And>t slots. v = Message t slots \<Longrightarrow> decode_dictionary t (wire_value v) = Inr v"
  shows "convert_item (\<lambda>t item. decode_dictionary t item) f (wire_value v) = Inr v"
proof (cases v)
  case (Enum n i)
  with assms(1) obtain vals where k: "kind f = EnumField vals" "(n, i) \<in> set vals"
    by (cases "kind f") auto
  with assms(2) have "map_of vals n = Some i"
    by (auto simp add: enum_names_ok_def)
  with Enum k show ?thesis by (simp add: convert_item_def enum_call_def)
next
  case (Message t slots)
  with assms(1) have "kind f = MessageField t" by (cases "kind f") auto
  with Message assms(3) show ?thesis by (simp add: convert_item_def)
next
  case (Str s)
  with assms(1) have "kind f = BytesField" by (cases "kind f") auto
  with Str show ?thesis
    by (simp add: convert_item_def utf8_encode_ascii b64encode_ascii b64decode_b64encode)
qed (use assms(1) in \<open>cases "kind f"; simp add: convert_item_def\<close>)+

lemma mapM_map_inverse:
  "(\<And>x. x \<in> set xs \<Longrightarrow> f (g x) = Inr x) \<Longrightarrow> mapM f (map g xs) = Inr xs"
  by (induction xs) simp_all

lemma wire_value_element_not_List:
  "validate_element k v \<Longrightarrow> as_list (wire_value v) = [wire_value v] \<and> wire_value v \<noteq> List []"
  by (cases v; cases k) (simp_all add: as_list_def)

lemma field_unwire:
  assumes "field_index (all_fields t) (name f) = Some i" and "all_fields t ! i = f"
    and "retained item" and "validate f item" and "enum_names_ok (kind f)"
    and H: "\<And>x t' s'. height x \<le> height item \<Longrightarrow> x = Message t' s' \<Longrightarrow> well_typed x
          \<Longrightarrow> no_empty_list x \<Longrightarrow> decode_dictionary t' (wire_value x) = Inr x"
    and "well_typed item" and "no_empty_list item"
  shows "decode_entry (\<lambda>t item. decode_dictionary t item) (Message t cur) (name f)
           (wire_value item) = Inr (Message t (cur[i := item]))"
proof (cases "repeated f")
  case False
  with assms(4) have v: "validate_element (kind f) item" by (simp add: validate_def)
  have conv: "convert_item (\<lambda>t item. decode_dictionary t item) f (wire_value item) = Inr item"
    by (rule element_unwire [OF v assms(5)]) (use H assms(7,8) in auto)
  from assms(3) have nn: "item \<noteq> NoneValue" "wire_value item \<noteq> NoneValue"
    by (simp_all add: retained_def wire_value_not_None)
  from wire_value_element_not_List [OF v] conv nn False assms(1,2,4)
  show ?thesis by (simp add: decode_entry_def)
next
  case True
  with assms(3,4) obtain vs where item: "item = List vs" "vs \<noteq> []"
    and vs: "\<And>x. x \<in> set vs \<Longrightarrow> validate_element (kind f) x"
    by (auto simp add: validate_def retained_def list_all_iff split: pyobject.splits)
  have "mapM (convert_item (\<lambda>t item. decode_dictionary t item) f) (map wire_value vs) = Inr vs"
  proof (rule mapM_map_inverse)
    fix x assume x: "x \<in> set vs"
    have "height x \<le> height item" "well_typed x" "no_empty_list x"
      using x item height_in_list [of x vs] assms(7,8) by (auto simp add: list_all_iff)
    then show "convert_item (\<lambda>t item. decode_dictionary t item) f (wire_value x) = Inr x"
      by (intro element_unwire [OF vs [OF x] assms(5)]) (use H in auto)
  qed
  with item True assms(1,2,4) show ?thesis
    by (simp add: decode_entry_def as_list_def)
qed

lemma decode_loop_unwire:
  assumes "all_fields t = pre @ fs'" and "slots = spre @ slots'"
    and "length spre = length pre" and "length slots' = length fs'"
    and "distinct (map name (all_fields t))"
    and "\<forall>(f, item) \<in> set (zip fs' slots').
           item = NoneValue \<or> (validate f item \<and> enum_names_ok (kind f))"
    and "\<forall>item \<in> set slots'. well_typed item \<and> no_empty_list item"
    and H: "\<And>x t' s'. height x < height (Message t slots) \<Longrightarrow> x = Message t' s' \<Longrightarrow> well_typed x
          \<Longrightarrow> no_empty_list x \<Longrightarrow> decode_dictionary t' (wire_value x) = Inr x"
  shows "foldM (\<lambda>(key, val) message.
                 decode_entry (\<lambda>t item. decode_dictionary t item) message key val)
           (map (\<lambda>(f, item). (name f, wire_value item))
              (filter (\<lambda>(f, item). retained item) (zip fs' slots')))
           (Message t (spre @ replicate (length fs') NoneValue))
         = Inr (Message t slots)"
  using assms(1-4,6,7)
proof (induction fs' arbitrary: pre spre slots')
  case Nil
  then show ?case by simp
next
  case (Cons f fs'')
  from Cons.prems(4) obtain item slots'' where sl: "slots' = item # slots''"
    by (cases slots') auto
  have idx: "field_index (all_fields t) (name f) = Some (length pre)"
    using assms(5) Cons.prems(1) field_index_at [of pre f fs''] by simp
  have nth: "all_fields t ! length pre = f"
    using Cons.prems(1) by simp
  have IH: "foldM (\<lambda>(key, val) message.
                 decode_entry (\<lambda>t item. decode_dictionary t item) message key val)
           (map (\<lambda>(f, item). (name f, wire_value item))
              (filter (\<lambda>(f, item). retained item) (zip fs'' slots'')))
           (Message t ((spre @ [item]) @ replicate (length fs'') NoneValue))
         = Inr (Message t slots)"
    using Cons.prems sl by (intro Cons.IH [of "pre @ [f]" "spre @ [item]" slots'']) auto
  show ?case
  proof (cases "retained item")
    case False
    with Cons.prems(6) sl have "item = NoneValue"
      by (cases item) (auto simp add: retained_def)
    with IH sl False show ?thesis by simp
  next
    case True
    then have v: "validate f item" "enum_names_ok (kind f)" "well_typed item" "no_empty_list item"
      using Cons.prems(5,6) sl by (auto simp add: retained_def)
    have "item \<in> set slots" using Cons.prems(2) sl by simp
    then have lt: "height item < height (Message t slots)" by (rule height_in_slots)
    have "decode_entry (\<lambda>t item. decode_dictionary t item)
            (Message t (spre @ replicate (length (f # fs'')) NoneValue)) (name f) (wire_value item)
          = Inr (Message t ((spre @ replicate (length (f # fs'')) NoneValue)[length pre := item]))"
      by (rule field_unwire [OF idx nth True v(1,2) _ v(3,4)]) (use lt H in auto)
    moreover have "(spre @ replicate (length (f # fs'')) NoneValue)[length pre := item]
          = (spre @ [item]) @ replicate (length fs'') NoneValue"
      using Cons.prems(3) by (simp add: list_update_append)
    ultimately show ?thesis using IH sl True by simp
  qed
qed

lemma decode_wire_value:
  "well_typed (Message t slots) \<Longrightarrow> no_empty_list (Message t slots)
   \<Longrightarrow> decode_dictionary t (wire_value (Message t slots)) = Inr (Message t slots)"
proof (induction "Message t slots" arbitrary: t slots rule: measure_induct_rule [where f = height])
  case less
  have "foldM (\<lambda>(key, val) message.
                 decode_entry (\<lambda>t item. decode_dictionary t item) message key val)
           (map (\<lambda>(f, item). (name f, wire_value item))
              (filter (\<lambda>(f, item). retained item) (zip (all_fields t) slots)))
           (Message t ([] @ replicate (length (all_fields t)) NoneValue))
         = Inr (Message t slots)"
    using less.prems less.hyps
    by (intro decode_loop_unwire [of t "[]" _ slots "[]"]) (auto simp add: list_all_iff)
  then show ?case by (simp add: new_message_def)
qed

section \<open>Claims about the JSON codec\<close>

lemma mapM_last: "mapM f xs = Inr ys \<Longrightarrow> xs \<noteq> [] \<Longrightarrow> f (last xs) = Inr (last ys)"
proof (induction xs arbitrary: ys)
  case Nil
  then show ?case by simp
next
  case (Cons a xs)
  from Cons.prems(1) obtain y ys' where
    y: "f a = Inr y" "mapM f xs = Inr ys'" "ys = y # ys'"
    by (auto split: sum.splits)
  show ?case
  proof (cases "xs = []")
    case True
    with y show ?thesis by simp
  next
    case False
    with mapM_length [OF y(2)] have "ys' \<noteq> []" by auto
    with False Cons.IH [OF y(2)] y(3) show ?thesis by simp
  qed
qed

text \<open>
  C6. For every initialized message (holding, as the schema ensures, values of its fields'
  kinds), \<open>encode_message\<close> writes one JSON object. Its keys are exactly the names of the
  fields whose assigned value is neither None nor an empty sequence, in schema order, and
  each value is rendered as \<open>wire_value\<close> says: an enum value as its name, bytes as base64
  text (an array of base64 texts when repeated), a nested message as a nested object.
\<close>

theorem encode_message_wire_format:
  assumes "well_typed (Message t slots)" and "is_initialized (Message t slots)"
  shows "\<exists>obj. encode_message sj (Message t slots) = Inr (dumps sj (Dict obj))
           \<and> map fst obj
               = map (name \<circ> fst)
                   (filter (\<lambda>(f, item). item \<noteq> NoneValue \<and> item \<noteq> List [])
                      (zip (all_fields t) slots))
           \<and> map snd obj
               = map (wire_value \<circ> snd)
                   (filter (\<lambda>(f, item). item \<noteq> NoneValue \<and> item \<noteq> List [])
                      (zip (all_fields t) slots))"
proof -
  have "jsonify (Message t slots) = Inr (wire_value (Message t slots))"
    using assms(1) by (intro jsonify_wire_value) (simp_all add: is_message_def)
  with assms(2) have "encode_message sj (Message t slots)
      = Inr (dumps sj (wire_value (Message t slots)))"
    by (simp add: encode_message_def)
  then show ?thesis
    by (auto simp add: retained_def comp_def split_def intro!: exI)
qed

theorem encode_message_wire_format_witness:
  "well_typed example_message \<and> is_initialized example_message
   \<and> (\<exists>obj. encode_message simplejson_example example_message
               = Inr (dumps simplejson_example (Dict obj))
            \<and> map fst obj = [''a'', ''b'', ''c'', ''d'', ''e'']
            \<and> map snd obj
                = [Integer 3, List [Unicode ''TWFu'', Unicode ''AP8=''], Unicode ''ww=='',
                   Unicode ''RED'', Dict [(''x'', Float (3 / 2))]])"
proof -
  have wt: "well_typed (Message Example
       [Integer 3, List [Str ''Man'', Str [CHR 0x00, CHR 0xFF]], Str [CHR 0xC3],
        Enum ''RED'' 1, Message Inner [Float (3 / 2)], NoneValue])"
    by code_simp
  have init: "is_initialized (Message Example
       [Integer 3, List [Str ''Man'', Str [CHR 0x00, CHR 0xFF]], Str [CHR 0xC3],
        Enum ''RED'' 1, Message Inner [Float (3 / 2)], NoneValue])"
    by code_simp
  have keys: "map (name \<circ> fst)
       (filter (\<lambda>(f, item). item \<noteq> NoneValue \<and> item \<noteq> List [])
          (zip (all_fields Example)
             [Integer 3, List [Str ''Man'', Str [CHR 0x00, CHR 0xFF]], Str [CHR 0xC3],
              Enum ''RED'' 1, Message Inner [Float (3 / 2)], NoneValue]))
     = [''a'', ''b'', ''c'', ''d'', ''e'']"
    by code_simp
  have vals: "map (wire_value \<circ> snd)
       (filter (\<lambda>(f, item). item \<noteq> NoneValue \<and> item \<noteq> List [])
          (zip (all_fields Example)
             [Integer 3, List [Str ''Man'', Str [CHR 0x00, CHR 0xFF]], Str [CHR 0xC3],
              Enum ''RED'' 1, Message Inner [Float (3 / 2)], NoneValue]))
     = [Integer 3, List [Unicode ''TWFu'', Unicode ''AP8=''], Unicode ''ww=='',
        Unicode ''RED'', Dict [(''x'', Float (3 / 2))]]"
    by code_simp
  from encode_message_wire_format [OF wt init, of simplejson_example] wt init
  show ?thesis
    unfolding example_message_def keys vals by blast
qed

text \<open>
  C1. For every initialized message with no empty list in it, the tree that
  \<open>encode_message\<close> hands to \<^verbatim>\<open>simplejson.dumps\<close> decodes, with the message's own type, to
  the message itself; and whenever \<^verbatim>\<open>simplejson.loads\<close> reads back the text that
  \<^verbatim>\<open>simplejson.dumps\<close> wrote, \<open>decode_message\<close> of the encoded text is the message. Bytes
  are arbitrary: a \<open>Str\<close> holds any sequence of the 256 byte values, in a scalar or in a
  repeated field.
\<close>

theorem decode_encode_roundtrip:
  assumes "well_typed (Message t slots)" and "is_initialized (Message t slots)"
    and "no_empty_list (Message t slots)"
  shows "encode_message sj (Message t slots) = Inr (dumps sj (wire_value (Message t slots)))
       \<and> decode_dictionary t (wire_value (Message t slots)) = Inr (Message t slots)
       \<and> (loads sj (dumps sj (wire_value (Message t slots))) = Inr (wire_value (Message t slots))
            \<and> strip (dumps sj (wire_value (Message t slots))) \<noteq> []
          \<longrightarrow> decode_message sj t (dumps sj (wire_value (Message t slots)))
                = Inr (Message t slots))"
proof -
  have "jsonify (Message t slots) = Inr (wire_value (Message t slots))"
    using assms(1) by (intro jsonify_wire_value) (simp_all add: is_message_def)
  with assms(2) have enc: "encode_message sj (Message t slots)
      = Inr (dumps sj (wire_value (Message t slots)))"
    by (simp add: encode_message_def)
  have dec: "decode_dictionary t (wire_value (Message t slots)) = Inr (Message t slots)"
    using assms(1,3) by (rule decode_wire_value)
  from enc dec assms(2) show ?thesis
    by (simp add: decode_message_def del: wire_value.simps is_initialized.simps)
qed

theorem decode_encode_roundtrip_witness:
  "well_typed example_message \<and> is_initialized example_message \<and> no_empty_list example_message
   \<and> loads simplejson_example (dumps simplejson_example (wire_value example_message))
       = Inr (wire_value example_message)
   \<and> strip (dumps simplejson_example (wire_value example_message)) \<noteq> []
   \<and> encode_message simplejson_example example_message
       = Inr (dumps simplejson_example (wire_value example_message))
   \<and> decode_message simplejson_example Example
        (dumps simplejson_example (wire_value example_message)) = Inr example_message"
proof -
  have wt: "well_typed (Message Example
       [Integer 3, List [Str ''Man'', Str [CHR 0x00, CHR 0xFF]], Str [CHR 0xC3],
        Enum ''RED'' 1, Message Inner [Float (3 / 2)], NoneValue])"
    by code_simp
  have init: "is_initialized (Message Example
       [Integer 3, List [Str ''Man'', Str [CHR 0x00, CHR 0xFF]], Str [CHR 0xC3],
        Enum ''RED'' 1, Message Inner [Float (3 / 2)], NoneValue])"
    by code_simp
  have ne: "no_empty_list (Message Example
       [Integer 3, List [Str ''Man'', Str [CHR 0x00, CHR 0xFF]], Str [CHR 0xC3],
        Enum ''RED'' 1, Message Inner [Float (3 / 2)], NoneValue])"
    by code_simp
  have lib: "loads simplejson_example (dumps simplejson_example (wire_value example_message))
       = Inr (wire_value example_message)"
    "strip (dumps simplejson_example (wire_value example_message)) \<noteq> []"
    by code_simp+
  from decode_encode_roundtrip [OF wt init ne, of simplejson_example] wt init ne lib
  show ?thesis
    unfolding example_message_def by blast
qed

text \<open>
  An unknown key whose value is not None is dropped by the \<^verbatim>\<open>except KeyError\<close> branch.
  An unknown key whose value is None never reaches that branch: \<open>reset\<close> is called with
  it first.
\<close>

lemma decode_entry_unknown_key:
  assumes "field_index (all_fields t) key = None"
  shows "val \<noteq> NoneValue
           \<Longrightarrow> decode_entry decode_nested (Message t slots) key val = Inr (Message t slots)"
    and "decode_entry decode_nested (Message t slots) key NoneValue = raise AttributeError key"
  using assms by (simp_all add: decode_entry_def raise_def)

text \<open>
  C4. Decoding an object with a key that names no field succeeds and drops the key when
  the key carries a value other than null; the texts here are \<^verbatim>\<open>{"a":3,"z":1}\<close> and
  \<^verbatim>\<open>{"a":3,"z":null}\<close>. With null the decoder does not drop the key: the AttributeError
  of \<open>reset\<close> leaves \<open>decode_message\<close>.
\<close>

theorem decode_unknown_key_null:
  "decode_message simplejson_example Example [CHR ''{'', CHR 0x22, CHR ''a'', CHR 0x22, CHR '':'', CHR ''3'', CHR '','', CHR 0x22, CHR ''z'', CHR 0x22, CHR '':'', CHR ''1'', CHR ''}'']
     = Inr (Message Example [Integer 3, NoneValue, NoneValue, NoneValue, NoneValue, NoneValue])
   \<and> decode_message simplejson_example Example [CHR ''{'', CHR 0x22, CHR ''a'', CHR 0x22, CHR '':'', CHR ''3'', CHR '','', CHR 0x22, CHR ''z'', CHR 0x22, CHR '':'', CHR ''n'', CHR ''u'', CHR ''l'', CHR ''l'', CHR ''}'']
     = Inl (Exn AttributeError ''z'')"
  by code_simp

text \<open>
  C7. In the loop of \<open>decode_dictionary\<close>, a JSON array given for a known field is
  converted element by element. A repeated field then receives the entire converted
  list and a field that is not repeated receives the last converted element only, which
  is the conversion of the array's last element; either replaces whatever the field held.
  An empty array leaves the message as it is, so that a field given only an empty array
  stays unset.
\<close>

theorem decode_entry_list:
  assumes "field_index (all_fields t) key = Some i"
    and "field = all_fields t ! i"
    and "items \<noteq> []"
    and "mapM (convert_item decode_nested field) items = Inr converted"
    and "assigned = (if repeated field then List converted else last converted)"
    and "assigned = NoneValue \<or> validate field assigned"
  shows "decode_entry decode_nested (Message t slots) key (List items)
           = Inr (Message t (slots[i := assigned]))
       \<and> convert_item decode_nested field (last items) = Inr (last converted)
       \<and> decode_entry decode_nested (Message t slots) key (List [])
           = Inr (Message t slots)
       \<and> decode_dictionary t (Dict [(key, List [])]) = Inr (new_message t)"
proof -
  have "converted \<noteq> []"
    using mapM_length [OF assms(4)] assms(3) by auto
  then show ?thesis
    using assms field_index_name [OF assms(1)] mapM_last [OF assms(4,3)]
    by (auto simp add: decode_entry_def as_list_def new_message_def)
qed

theorem decode_entry_list_witness:
  "decode_entry (\<lambda>t item. decode_dictionary t item) example_message ''a''
       (List [Integer 1, Integer 2])
     = Inr (Message Example
         [Integer 2, List [Str ''Man'', Str [CHR 0x00, CHR 0xFF]], Str [CHR 0xC3],
          Enum ''RED'' 1, Message Inner [Float (3 / 2)], NoneValue])
   \<and> decode_entry (\<lambda>t item. decode_dictionary t item) example_message ''b''
       (List [Unicode ''TQ=='', Unicode ''TWFu''])
     = Inr (Message Example
         [Integer 3, List [Str ''M'', Str ''Man''], Str [CHR 0xC3],
          Enum ''RED'' 1, Message Inner [Float (3 / 2)], NoneValue])
   \<and> decode_entry (\<lambda>t item. decode_dictionary t item) example_message ''b'' (List [])
     = Inr example_message"
proof -
  let ?dec = "\<lambda>t item. decode_dictionary t item"
  let ?slots = "[Integer 3, List [Str ''Man'', Str [CHR 0x00, CHR 0xFF]], Str [CHR 0xC3],
        Enum ''RED'' 1, Message Inner [Float (3 / 2)], NoneValue]"
  have a: "field_index (all_fields Example) ''a'' = Some 0"
    "FieldDescriptor ''a'' IntegerField False True = all_fields Example ! 0"
    "[Integer 1, Integer 2] \<noteq> []"
    "mapM (convert_item ?dec (FieldDescriptor ''a'' IntegerField False True))
       [Integer 1, Integer 2] = Inr [Integer 1, Integer 2]"
    "Integer 2 = (if repeated (FieldDescriptor ''a'' IntegerField False True)
                  then List [Integer 1, Integer 2] else last [Integer 1, Integer 2])"
    "Integer 2 = NoneValue \<or> validate (FieldDescriptor ''a'' IntegerField False True) (Integer 2)"
    by code_simp+
  have b: "field_index (all_fields Example) ''b'' = Some 1"
    "FieldDescriptor ''b'' BytesField True False = all_fields Example ! 1"
    "[Unicode ''TQ=='', Unicode ''TWFu''] \<noteq> []"
    "mapM (convert_item ?dec (FieldDescriptor ''b'' BytesField True False))
       [Unicode ''TQ=='', Unicode ''TWFu''] = Inr [Str ''M'', Str ''Man'']"
    "List [Str ''M'', Str ''Man''] = (if repeated (FieldDescriptor ''b'' BytesField True False)
                  then List [Str ''M'', Str ''Man''] else last [Str ''M'', Str ''Man''])"
    "List [Str ''M'', Str ''Man''] = NoneValue
       \<or> validate (FieldDescriptor ''b'' BytesField True False) (List [Str ''M'', Str ''Man''])"
    by code_simp+
  from decode_entry_list [OF a, of ?slots] decode_entry_list [OF b, of ?slots]
  show ?thesis
    unfolding example_message_def by simp
qed

end
